theory Spec2Isabelle
  imports Complex_Main "HOL-Library.Word" "HOL-Library.Sublist"
begin

section \<open>Strings of the source language\<close>

text \<open>
  A TypeScript string is a sequence of UTF-16 code units; \<open>length\<close>, \<open>slice\<close>,
  \<open>includes\<close> and the regular expressions of the sources all work on code units.
  String literals of the sources are written with \<open>asc\<close> where they are ASCII; the
  few glyphs outside ASCII are given by their code units.
\<close>

type_synonym cu = "16 word"
type_synonym jstring = "cu list"

definition asc :: "string \<Rightarrow> jstring" where
  "asc s = map of_char s"

text \<open>The class \<open>\s\<close> of regular expressions, which is also what \<open>trim\<close> strips:
  white space and line terminators of ECMAScript.\<close>

definition is_space :: "cu \<Rightarrow> bool" where
  "is_space c =
     (c \<in> set [0x9, 0xA, 0xB, 0xC, 0xD, 0x20, 0xA0, 0x1680, 0x2028, 0x2029,
                0x202F, 0x205F, 0x3000, 0xFEFF]
      \<or> (0x2000 \<le> c \<and> c \<le> 0x200A))"

text \<open>The class \<open>\d\<close> (no unicode flag): the ten ASCII digits.\<close>

definition is_digit :: "cu \<Rightarrow> bool" where
  "is_digit c = (0x30 \<le> c \<and> c \<le> 0x39)"

text \<open>\<open>toLowerCase\<close> on the ASCII letters. The case mappings of Unicode beyond
  ASCII are a table of the runtime, not of this repository; code units outside
  \<open>A\<close>..\<open>Z\<close> are left as they are.\<close>

definition lower_cu :: "cu \<Rightarrow> cu" where
  "lower_cu c = (if 0x41 \<le> c \<and> c \<le> 0x5A then c + 0x20 else c)"

definition toLowerCase :: "jstring \<Rightarrow> jstring" where
  "toLowerCase s = map lower_cu s"

definition trim :: "jstring \<Rightarrow> jstring" where
  "trim s = rev (dropWhile is_space (rev (dropWhile is_space s)))"

text \<open>\<open>s.includes(t)\<close>: \<open>t\<close> occurs in \<open>s\<close> as a contiguous block.\<close>

fun includes_str :: "jstring \<Rightarrow> jstring \<Rightarrow> bool" where
  "includes_str [] t = (t = [])"
| "includes_str (c # cs) t = (prefix t (c # cs) \<or> includes_str cs t)"

text \<open>\<open>xs.join(sep)\<close> on an array of strings.\<close>

fun join :: "jstring \<Rightarrow> jstring list \<Rightarrow> jstring" where
  "join sep [] = []"
| "join sep [x] = x"
| "join sep (x # y # ys) = x @ sep @ join sep (y # ys)"

text \<open>A non-negative integer inside a template literal: its decimal digits.\<close>

fun str_of_nat :: "nat \<Rightarrow> jstring" where
  "str_of_nat n =
     (if n < 10 then [of_nat (48 + n)]
      else str_of_nat (n div 10) @ [of_nat (48 + n mod 10)])"

declare str_of_nat.simps [simp del]

text \<open>Truthiness of an optional string (\<open>if (s)\<close>, \<open>!s\<close>): \<open>undefined\<close> and the
  empty string are falsy.\<close>

definition truthy :: "jstring option \<Rightarrow> bool" where
  "truthy s = (case s of None \<Rightarrow> False | Some v \<Rightarrow> v \<noteq> [])"

text \<open>\<open>xs ?? []\<close> on an optional array.\<close>

definition or_empty :: "'a list option \<Rightarrow> 'a list" where
  "or_empty xs = (case xs of None \<Rightarrow> [] | Some v \<Rightarrow> v)"


section \<open>Self check: the data model\<close>

record Evidence =
  testResults :: "jstring option"
  codeChanges :: "jstring list option"
  validation :: "jstring option"

record Implementation =
  testsPassed :: bool
  testOutput :: "jstring option"
  requirements :: "jstring list option"
  requirementsMet :: "jstring list option"
  assumptions :: "jstring list option"
  assumptionsVerified :: "jstring list option"
  evidence :: "Evidence option"
  status :: "jstring option"
  description :: "jstring option"
  errors :: "jstring list option"
  warnings :: "jstring list option"

record ValidationResult =
  passed :: bool
  issues :: "jstring list"
  report :: "jstring"


section \<open>Self check: the four questions\<close>

text \<open>The cross mark U+274C that opens every issue of the four questions, and the
  other glyphs of the literals.\<close>

definition cross :: jstring where "cross = [0x274C]"
definition emdash :: jstring where "emdash = [0x2014]"
definition check_mark :: jstring where "check_mark = [0x2713]"
definition check_box :: jstring where "check_box = [0x2705]"
definition siren :: jstring where "siren = [0xD83D, 0xDEA8]"
definition clipboard :: jstring where "clipboard = [0xD83D, 0xDCCB]"
definition bar_chart :: jstring where "bar_chart = [0xD83D, 0xDCCA]"

definition UNCERTAINTY_WORDS :: "jstring list" where
  "UNCERTAINTY_WORDS =
     [asc ''probably'', asc ''maybe'', asc ''should work'', asc ''might work'',
      asc ''seems to'', asc ''appears to'']"

definition passingIndicators :: "jstring list" where
  "passingIndicators = [asc ''passed'', asc ''OK'', check_mark, check_box, asc ''success'']"

definition checkTestsPassing :: "Implementation \<Rightarrow> jstring option" where
  "checkTestsPassing impl =
     (if \<not> testsPassed impl then
        Some (cross @ asc '' Tests not passing '' @ emdash @ asc '' implementation is incomplete'')
      else case testOutput impl of
        None \<Rightarrow>
          Some (cross @ asc '' Tests claimed passing but no output provided (hallucination risk)'')
      | Some out \<Rightarrow>
          if out = [] \<or> trim out = [] then
            Some (cross @ asc '' Tests claimed passing but no output provided (hallucination risk)'')
          else if \<not> list_ex (\<lambda>ind. includes_str (toLowerCase out) (toLowerCase ind)) passingIndicators
          then Some (cross @ asc '' Test output does not contain a passing indicator'')
          else None)"

definition checkRequirementsMet :: "Implementation \<Rightarrow> jstring option" where
  "checkRequirementsMet impl =
     (let reqs = or_empty (requirements impl) in
      if length reqs = 0 then None
      else
        let metSet = set (or_empty (requirementsMet impl));
            unmet = filter (\<lambda>r. r \<notin> metSet) reqs
        in if length unmet = 0 then None
           else Some (cross @ asc '' Requirements not fully met: '' @ join (asc '', '') unmet))"

definition checkAssumptionsVerified :: "Implementation \<Rightarrow> jstring option" where
  "checkAssumptionsVerified impl =
     (let assums = or_empty (assumptions impl) in
      if length assums = 0 then None
      else
        let verifiedSet = set (or_empty (assumptionsVerified impl));
            unverified = filter (\<lambda>a. a \<notin> verifiedSet) assums
        in if length unverified = 0 then None
           else Some (cross @ asc '' Unverified assumptions: '' @ join (asc '', '') unverified))"

text \<open>\<open>impl.evidence ?? {}\<close>: the evidence record, all fields absent when the
  record is.\<close>

definition no_evidence :: Evidence where
  "no_evidence = \<lparr>testResults = None, codeChanges = None, validation = None\<rparr>"

definition or_no_evidence :: "Evidence option \<Rightarrow> Evidence" where
  "or_no_evidence e = (case e of None \<Rightarrow> no_evidence | Some v \<Rightarrow> v)"

text \<open>The local array \<open>missing\<close> of \<open>checkEvidenceExists\<close>.\<close>

definition missingEvidence :: "Evidence \<Rightarrow> jstring list" where
  "missingEvidence ev =
     (if \<not> truthy (testResults ev) \<or> trim (or_empty (testResults ev)) = []
      then [asc ''testResults''] else [])
     @ (if codeChanges ev = None \<or> length (or_empty (codeChanges ev)) = 0
        then [asc ''codeChanges''] else [])
     @ (if \<not> truthy (validation ev) \<or> trim (or_empty (validation ev)) = []
        then [asc ''validation''] else [])"

definition checkEvidenceExists :: "Implementation \<Rightarrow> jstring option" where
  "checkEvidenceExists impl =
     (let missing = missingEvidence (or_no_evidence (evidence impl)) in
      if length missing = 0 then None
      else Some (cross @ asc '' Missing evidence: '' @ join (asc '', '') missing))"


section \<open>Self check: red flags\<close>

definition flag_no_output :: jstring where
  "flag_no_output = asc ''Claims tests pass without showing output''"

definition flag_no_evidence :: jstring where
  "flag_no_evidence = asc ''Claims completion without any evidence''"

definition flag_failing :: jstring where
  "flag_failing = asc ''Claims completion despite failing tests''"

definition flag_ignored :: jstring where
  "flag_ignored = asc ''Ignored errors or warnings while claiming completion''"

definition detectHallucinations :: "Implementation \<Rightarrow> jstring list" where
  "detectHallucinations impl =
     (let complete = (status impl = Some (asc ''complete''));
          hasErrors = (length (or_empty (errors impl)) > 0);
          hasWarnings = (length (or_empty (warnings impl)) > 0);
          desc = toLowerCase (or_empty (description impl));
          uncertaintyFound = filter (\<lambda>w. includes_str desc w) UNCERTAINTY_WORDS
      in (if testsPassed impl \<and> \<not> truthy (testOutput impl) then [flag_no_output] else [])
         @ (if complete \<and> evidence impl = None then [flag_no_evidence] else [])
         @ (if complete \<and> \<not> testsPassed impl then [flag_failing] else [])
         @ (if (hasErrors \<or> hasWarnings) \<and> complete then [flag_ignored] else [])
         @ (if length uncertaintyFound > 0
            then [asc ''Uncertainty language detected: \"''
                  @ join (asc ''\", \"'') uncertaintyFound @ asc ''\"'']
            else []))"


section \<open>Self check: verdict and report\<close>

definition report_header :: jstring where
  "report_header = clipboard @ asc '' Self-Check Validation:''"

definition passed_lines :: "jstring list" where
  "passed_lines =
     [report_header,
      asc ''   '' @ check_box @ asc '' Tests passing'',
      asc ''   '' @ check_box @ asc '' All requirements met'',
      asc ''   '' @ check_box @ asc '' All assumptions verified'',
      asc ''   '' @ check_box @ asc '' Evidence provided'',
      [],
      bar_chart @ asc '' Validation: PASSED'',
      check_box @ asc '' Implementation complete with evidence'']"

definition failed_line :: jstring where
  "failed_line = bar_chart @ asc '' Validation: FAILED''"

definition summary_line :: "nat \<Rightarrow> jstring" where
  "summary_line n =
     cross @ asc '' '' @ str_of_nat n
     @ asc '' issue(s) must be resolved before claiming completion''"

definition formatReport :: "bool \<Rightarrow> jstring list \<Rightarrow> jstring" where
  "formatReport ok iss =
     (if ok then join (asc [CHR 0x0A]) passed_lines
      else join (asc [CHR 0x0A])
             ([report_header] @ map (\<lambda>i. asc ''   '' @ i) iss
              @ [[], failed_line, summary_line (length iss)]))"

text \<open>\<open>if (q) issues.push(q)\<close>: the answer of a question is pushed when it is
  truthy, that is neither \<open>null\<close> nor the empty string.\<close>

definition push_if :: "jstring option \<Rightarrow> jstring list \<Rightarrow> jstring list" where
  "push_if q iss = (if truthy q then iss @ [the q] else iss)"

definition hallucination_prefix :: jstring where
  "hallucination_prefix = siren @ asc '' Hallucination detected: ''"

definition selfCheck :: "Implementation \<Rightarrow> ValidationResult" where
  "selfCheck impl =
     (let iss0 = [];
          iss1 = push_if (checkTestsPassing impl) iss0;
          iss2 = push_if (checkRequirementsMet impl) iss1;
          iss3 = push_if (checkAssumptionsVerified impl) iss2;
          iss4 = push_if (checkEvidenceExists impl) iss3;
          flags = detectHallucinations impl;
          iss5 = iss4 @ map (\<lambda>f. hallucination_prefix @ f) flags;
          ok = (length iss5 = 0)
      in \<lparr>passed = ok, issues = iss5, report = formatReport ok iss5\<rparr>)"


section \<open>Reflexion: the data model\<close>

record ErrorInfo =
  testName :: "jstring option"
  errorType :: "jstring option"
  errorMessage :: "jstring option"
  traceback :: "jstring option"
  rootCause :: "jstring option"
  solution :: "jstring option"
  prevention :: "jstring option"
  whyMissed :: "jstring option"
  lesson :: "jstring option"
  timestamp :: "jstring option"

text \<open>The five fields that a lookup hands back (the \<open>Pick\<close> type of
  \<open>LookupResult.solution\<close>); the field names carry the prefix \<open>sol_\<close> to keep
  them apart from those of \<open>ErrorInfo\<close>.\<close>

record Solution =
  sol_rootCause :: "jstring option"
  sol_solution :: "jstring option"
  sol_prevention :: "jstring option"
  sol_lesson :: "jstring option"
  sol_timestamp :: "jstring option"

record LookupResult =
  found :: bool
  found_solution :: "Solution option"


section \<open>Reflexion: signatures\<close>

text \<open>\<open>s.replace(/\d+/g, "N")\<close>: scanning from the left, each maximal run of
  digits becomes one \<open>N\<close>.\<close>

function replace_digit_runs :: "jstring \<Rightarrow> jstring" where
  "replace_digit_runs [] = []"
| "replace_digit_runs (c # cs) =
     (if is_digit c then asc ''N'' @ replace_digit_runs (dropWhile is_digit cs)
      else c # replace_digit_runs cs)"
  by pat_completeness auto
termination
  by (relation "measure length") (auto simp: less_Suc_eq_le length_dropWhile_le)

definition createErrorSignature :: "ErrorInfo \<Rightarrow> jstring" where
  "createErrorSignature errorInfo =
     (let parts =
        (if truthy (errorType errorInfo) then [or_empty (errorType errorInfo)] else [])
        @ (if truthy (errorMessage errorInfo)
           then [take 120 (replace_digit_runs (or_empty (errorMessage errorInfo)))]
           else [])
        @ (if truthy (testName errorInfo) then [or_empty (testName errorInfo)] else [])
      in join (asc '' | '') parts)"

text \<open>\<open>s.split(/\s+/)\<close>: the pieces between the maximal runs of white space; a
  string that starts or ends with white space has an empty first or last piece,
  and the empty string gives one empty piece.\<close>

function split_ws :: "jstring \<Rightarrow> jstring list" where
  "split_ws [] = [[]]"
| "split_ws (c # cs) =
     (if is_space c then [] # split_ws (dropWhile is_space cs)
      else case split_ws cs of [] \<Rightarrow> [[c]] | w # ws \<Rightarrow> (c # w) # ws)"
  by pat_completeness auto
termination
  by (relation "measure length") (auto simp: less_Suc_eq_le length_dropWhile_le)

text \<open>\<open>new Set(sig.toLowerCase().split(/\s+/).filter(Boolean))\<close>: the set of the
  non-empty words of a signature, lower-cased.\<close>

definition words_of :: "jstring \<Rightarrow> jstring set" where
  "words_of sig = set (filter (\<lambda>w. w \<noteq> []) (split_ws (toLowerCase sig)))"

text \<open>
  The quotient \<open>overlap / union\<close> and the threshold are numbers of the source
  language. Both counts are natural numbers bounded by the number of words, so
  the quotient is taken here as the exact rational and the threshold as a
  real; the default threshold \<open>0.7\<close> is \<open>7/10\<close>. The properties below compare
  the two orders of one quotient, or use a quotient that is exactly 1, so
  rounding plays no part in them.
\<close>

definition matchSignatures :: "jstring \<Rightarrow> jstring \<Rightarrow> real \<Rightarrow> bool" where
  "matchSignatures sig1 sig2 threshold =
     (let words1 = words_of sig1;
          words2 = words_of sig2
      in if card words1 = 0 \<or> card words2 = 0 then False
         else
           let overlap = card (Set.filter (\<lambda>w. w \<in> words2) words1);
               union = card (words1 \<union> words2)
           in real overlap / real union \<ge> threshold)"

definition default_threshold :: real where
  "default_threshold = 7 / 10"


section \<open>Reflexion: lookup\<close>

text \<open>
  \<open>JSON.parse\<close> belongs to the runtime and is a parameter of the lookup. On a
  line it either throws (\<open>SyntaxError\<close>, which the \<open>try\<close> of the source
  catches), or returns \<open>null\<close> for the text \<open>null\<close> (\<open>JNull\<close>), or returns a
  value that the source casts to \<open>ErrorInfo\<close> (\<open>JRecord\<close>, its fields strings
  where present, as the type declares). The cast checks nothing, and the
  \<open>try\<close> ends before \<open>createErrorSignature\<close> is called: reading a property of
  \<open>null\<close>, which \<open>createErrorSignature\<close> does first thing, raises a
  \<open>TypeError\<close> that nothing in \<open>lookupSolution\<close> catches. A parsed object
  whose \<open>errorMessage\<close> is present and not a string, on which the source fails
  as well, has no value here.
\<close>

datatype json_parse = SyntaxError | JNull | JRecord ErrorInfo

datatype js_error = TypeError

definition solution_of :: "ErrorInfo \<Rightarrow> Solution" where
  "solution_of r =
     \<lparr>sol_rootCause = rootCause r, sol_solution = solution r,
      sol_prevention = prevention r, sol_lesson = lesson r,
      sol_timestamp = timestamp r\<rparr>"

definition not_found :: LookupResult where
  "not_found = \<lparr>found = False, found_solution = None\<rparr>"

definition found_record :: "ErrorInfo \<Rightarrow> LookupResult" where
  "found_record r = \<lparr>found = True, found_solution = Some (solution_of r)\<rparr>"

text \<open>The loop of \<open>lookupSolution\<close> over the lines, the query signature computed
  once before it.\<close>

fun lookup_scan ::
  "(jstring \<Rightarrow> json_parse) \<Rightarrow> jstring \<Rightarrow> jstring list \<Rightarrow> js_error + LookupResult"
  where
  "lookup_scan parse querySig [] = Inr not_found"
| "lookup_scan parse querySig (line # rest) =
     (let trimmed = trim line in
      if trimmed = [] then lookup_scan parse querySig rest
      else case parse trimmed of
        SyntaxError \<Rightarrow> lookup_scan parse querySig rest
      | JNull \<Rightarrow> Inl TypeError
      | JRecord record \<Rightarrow>
          if matchSignatures querySig (createErrorSignature record) default_threshold
          then Inr (found_record record)
          else lookup_scan parse querySig rest)"

definition lookupSolution ::
  "(jstring \<Rightarrow> json_parse) \<Rightarrow> ErrorInfo \<Rightarrow> jstring list \<Rightarrow> js_error + LookupResult" where
  "lookupSolution parse errorInfo jsonlLines =
     lookup_scan parse (createErrorSignature errorInfo) jsonlLines"


section \<open>Notions used to state the properties\<close>

text \<open>The issue that a question contributes: none for \<open>null\<close>, the string otherwise.\<close>

definition issue_of :: "jstring option \<Rightarrow> jstring list" where
  "issue_of q = (case q of None \<Rightarrow> [] | Some s \<Rightarrow> [s])"

text \<open>The lines of a text: the pieces between its line feeds.\<close>

fun lines_of :: "jstring \<Rightarrow> jstring list" where
  "lines_of [] = [[]]"
| "lines_of (c # cs) =
     (if c = 0x0A then [] # lines_of cs
      else case lines_of cs of [] \<Rightarrow> [[c]] | l # ls \<Rightarrow> (c # l) # ls)"

text \<open>The number that a string of decimal digits denotes.\<close>

definition decimal_value :: "jstring \<Rightarrow> nat" where
  "decimal_value s = foldl (\<lambda>a d. 10 * a + (unat d - 48)) 0 s"

text \<open>A signature has a token when one of the pieces of its split is not empty.\<close>

definition has_token :: "jstring \<Rightarrow> bool" where
  "has_token sig = list_ex (\<lambda>w. w \<noteq> []) (split_ws sig)"

text \<open>A line that the scan passes over for a query signature: a blank line, a
  line that fails to parse, or a record whose signature is not similar.\<close>

definition skipped :: "(jstring \<Rightarrow> json_parse) \<Rightarrow> jstring \<Rightarrow> jstring \<Rightarrow> bool" where
  "skipped parse querySig line =
     (trim line = [] \<or>
      (case parse (trim line) of
         SyntaxError \<Rightarrow> True
       | JNull \<Rightarrow> False
       | JRecord r \<Rightarrow>
           \<not> matchSignatures querySig (createErrorSignature r) default_threshold))"

text \<open>The error record with every field absent.\<close>

definition no_error :: ErrorInfo where
  "no_error =
     \<lparr>testName = None, errorType = None, errorMessage = None, traceback = None,
      rootCause = None, solution = None, prevention = None, whyMissed = None,
      lesson = None, timestamp = None\<rparr>"






section \<open>Example records\<close>

definition assertion_5_3 :: ErrorInfo where
  "assertion_5_3 =
     no_error\<lparr>testName := Some (asc ''test_calculation''),
              errorType := Some (asc ''AssertionError''),
              errorMessage := Some (asc ''Expected 5, got 3'')\<rparr>"

definition assertion_12_7 :: ErrorInfo where
  "assertion_12_7 =
     no_error\<lparr>testName := Some (asc ''test_calculation''),
              errorType := Some (asc ''AssertionError''),
              errorMessage := Some (asc ''Expected 12, got 7'')\<rparr>"


text \<open>The implementation record with every optional field absent and the tests
  not passed.\<close>

definition blank_impl :: Implementation where
  "blank_impl =
     \<lparr>testsPassed = False, testOutput = None, requirements = None, requirementsMet = None,
      assumptions = None, assumptionsVerified = None, evidence = None, status = None,
      description = None, errors = None, warnings = None\<rparr>"

text \<open>A claim that passes: tests passed with output, full evidence, status complete.\<close>

definition good_impl :: Implementation where
  "good_impl =
     blank_impl\<lparr>testsPassed := True, testOutput := Some (asc ''12 passed, 0 failed''),
       evidence := Some \<lparr>testResults = Some (asc ''...''),
                         codeChanges = Some [asc ''a.ts: added X''],
                         validation = Some (asc ''lint clean'')\<rparr>,
       status := Some (asc ''complete'')\<rparr>"

text \<open>A claim that fails every question and raises two red flags.\<close>

definition bad_impl :: Implementation where
  "bad_impl =
     blank_impl\<lparr>requirements := Some [asc ''login'', asc ''logout''],
       requirementsMet := Some [asc ''logout''],
       assumptions := Some [asc ''api is stable''],
       status := Some (asc ''complete'')\<rparr>"

text \<open>A claim of passing tests whose output is present and is the empty string.\<close>

definition empty_output_impl :: Implementation where
  "empty_output_impl = blank_impl\<lparr>testsPassed := True, testOutput := Some []\<rparr>"

text \<open>A stored record, the line that holds it, and what \<open>JSON.parse\<close> returns on
  the lines of the examples: the record for its line, \<open>null\<close> for the text
  \<open>null\<close>, and a \<open>SyntaxError\<close> for the truncated line.\<close>

definition stored_record :: ErrorInfo where
  "stored_record =
     assertion_12_7\<lparr>rootCause := Some (asc ''off by one''),
                    solution := Some (asc ''fix the bound'')\<rparr>"

definition stored_line :: jstring where
  "stored_line =
     asc ''{\"testName\":\"test_calculation\",\"errorType\":\"AssertionError\",''
     @ asc ''\"errorMessage\":\"Expected 12, got 7\",\"rootCause\":\"off by one\",''
     @ asc ''\"solution\":\"fix the bound\"}''"

definition truncated_line :: jstring where
  "truncated_line = asc ''{\"testName\":\"test_calc''"

definition example_parse :: "jstring \<Rightarrow> json_parse" where
  "example_parse text =
     (if text = stored_line then JRecord stored_record
      else if text = asc ''null'' then JNull
      else SyntaxError)"


text \<open>A claim with the requirements \<open>R\<close> of which \<open>M\<close> are met.\<close>

definition reqs_impl :: "jstring list \<Rightarrow> jstring list \<Rightarrow> Implementation" where
  "reqs_impl R M = blank_impl\<lparr>requirements := Some R, requirementsMet := Some M\<rparr>"

text \<open>A claim of passing tests whose output is two spaces.\<close>

definition spaces_output_impl :: Implementation where
  "spaces_output_impl = blank_impl\<lparr>testsPassed := True, testOutput := Some (asc ''  '')\<rparr>"




text \<open>A record with a type and a message of 169 code units, and no test name.\<close>

definition long_message :: jstring where
  "long_message = concat (replicate 13 (asc ''line 42 of 7 ''))"

definition long_error :: ErrorInfo where
  "long_error =
     no_error\<lparr>errorType := Some (asc ''IndexError''), errorMessage := Some long_message\<rparr>"

text \<open>A record whose only field is a type that is one space.\<close>

definition space_type_error :: ErrorInfo where
  "space_type_error = no_error\<lparr>errorType := Some (asc '' '')\<rparr>"


section \<open>Auxiliary facts about strings\<close>

lemma filter_not_dropWhile:
  "filter (\<lambda>c. \<not> P c) (dropWhile P xs) = filter (\<lambda>c. \<not> P c) xs"
  by (induction xs) auto

text \<open>Splitting at white space loses nothing but the white space.\<close>

lemma concat_split_ws: "concat (split_ws s) = filter (\<lambda>c. \<not> is_space c) s"
  by (induction s rule: split_ws.induct) (auto simp: filter_not_dropWhile split: list.splits)

lemma split_ws_has_word: "(\<exists>w\<in>set (split_ws s). w \<noteq> []) = (\<exists>c\<in>set s. \<not> is_space c)"
proof -
  have "(\<exists>w\<in>set (split_ws s). w \<noteq> []) = (concat (split_ws s) \<noteq> [])"
    by auto
  also have "\<dots> = (filter (\<lambda>c. \<not> is_space c) s \<noteq> [])"
    by (simp only: concat_split_ws)
  also have "\<dots> = (\<exists>c\<in>set s. \<not> is_space c)"
    by (simp add: filter_empty_conv)
  finally show ?thesis .
qed

lemma unat_lower:
  fixes c :: cu
  assumes "c \<le> 0x5A"
  shows "unat (c + 0x20) = unat c + 32"
proof -
  have le: "unat c \<le> 90" using assms by (simp add: word_le_nat_alt)
  have "unat (c + 0x20) = (unat c + 32) mod 65536"
    by (simp add: unat_word_ariths)
  with le show ?thesis by simp
qed

lemma is_space_unat:
  "is_space c =
     (unat c \<in> {9, 10, 11, 12, 13, 32, 160, 5760, 8232, 8233, 8239, 8287, 12288, 65279}
      \<or> (8192 \<le> unat c \<and> unat c \<le> 8202))"
  unfolding is_space_def
  by (simp add: word_le_nat_alt word_unat_eq_iff)

text \<open>Lower-casing turns no letter into white space and no white space into a letter.\<close>

lemma is_space_lower_cu: "is_space (lower_cu c) = is_space c"
proof (cases "0x41 \<le> c \<and> c \<le> 0x5A")
  case True
  then have "65 \<le> unat c" "unat c \<le> 90" by (simp_all add: word_le_nat_alt)
  moreover have "unat (c + 0x20) = unat c + 32" using True by (simp add: unat_lower)
  ultimately show ?thesis
    using True by (auto simp add: lower_cu_def is_space_unat)
next
  case False
  then show ?thesis by (auto simp: lower_cu_def)
qed


section \<open>Auxiliary facts about signatures\<close>

lemma finite_words_of: "finite (words_of s)"
  by (simp add: words_of_def)

text \<open>A signature has a word exactly when it has a code unit that is not white space.\<close>

lemma words_of_nonempty: "(words_of s \<noteq> {}) = (\<exists>c\<in>set s. \<not> is_space c)"
proof -
  have "(words_of s \<noteq> {}) = (\<exists>w\<in>set (split_ws (toLowerCase s)). w \<noteq> [])"
    by (auto simp: words_of_def filter_empty_conv)
  also have "\<dots> = (\<exists>c\<in>set (toLowerCase s). \<not> is_space c)"
    by (rule split_ws_has_word)
  also have "\<dots> = (\<exists>c\<in>set s. \<not> is_space c)"
    by (simp add: toLowerCase_def is_space_lower_cu)
  finally show ?thesis .
qed

text \<open>The loop that counts the overlap computes the size of the intersection.\<close>

lemma matchSignatures_alt:
  "matchSignatures a b t =
     (words_of a \<noteq> {} \<and> words_of b \<noteq> {}
      \<and> t \<le> real (card (words_of a \<inter> words_of b)) / real (card (words_of a \<union> words_of b)))"
proof -
  have "Set.filter (\<lambda>w. w \<in> words_of b) (words_of a) = words_of a \<inter> words_of b"
    by auto
  then show ?thesis
    by (simp add: matchSignatures_def Let_def finite_words_of)
qed

lemma matchSignatures_self: "matchSignatures s s t = (words_of s \<noteq> {} \<and> t \<le> 1)"
proof (cases "words_of s = {}")
  case True
  then show ?thesis by (simp add: matchSignatures_alt)
next
  case False
  then have "card (words_of s) \<noteq> 0" by (simp add: finite_words_of)
  then show ?thesis using False by (simp add: matchSignatures_alt)
qed


lemma set_join: "x \<in> set parts \<Longrightarrow> set x \<subseteq> set (join sep parts)"
  by (induction sep parts rule: join.induct) auto

lemma has_token_iff: "has_token s = (\<exists>c\<in>set s. \<not> is_space c)"
  by (simp add: has_token_def list_ex_iff split_ws_has_word)

lemma replace_no_digits: "\<not> list_ex is_digit a \<Longrightarrow> replace_digit_runs a = a"
  by (induction a) auto

lemma replace_run:
  assumes "ds \<noteq> []" "list_all is_digit ds" "case t of [] \<Rightarrow> True | c # _ \<Rightarrow> \<not> is_digit c"
  shows "replace_digit_runs (ds @ t) = asc ''N'' @ replace_digit_runs t"
proof -
  obtain d ds' where ds: "ds = d # ds'" using assms(1) by (cases ds) auto
  have "dropWhile is_digit (ds' @ t) = dropWhile is_digit t"
    using assms(2) ds by (simp add: dropWhile_append2 list_all_iff)
  also have "\<dots> = t" using assms(3) by (cases t) auto
  finally show ?thesis using assms(2) ds by simp
qed

lemma replace_prefix_run:
  assumes "\<not> list_ex is_digit a" "ds \<noteq> []" "list_all is_digit ds"
    "case t of [] \<Rightarrow> True | c # _ \<Rightarrow> \<not> is_digit c"
  shows "replace_digit_runs (a @ ds @ t) = a @ asc ''N'' @ replace_digit_runs t"
  using assms(1)
proof (induction a)
  case Nil
  show ?case using replace_run[OF assms(2-4)] by simp
next
  case (Cons c a)
  then show ?case by simp
qed

lemma normalise_5_3: "replace_digit_runs (asc ''Expected 5, got 3'') = asc ''Expected N, got N''"
  by (simp add: asc_def is_digit_def)

lemma normalise_12_7: "replace_digit_runs (asc ''Expected 12, got 7'') = asc ''Expected N, got N''"
  by (simp add: asc_def is_digit_def)


lemma signature_has_message:
  assumes "errorMessage e = Some m" "m \<noteq> []"
  shows "set (take 120 (replace_digit_runs m)) \<subseteq> set (createErrorSignature e)"
  unfolding createErrorSignature_def Let_def
  using assms by (intro set_join) (simp add: truthy_def or_empty_def)

lemma signature_5_3_12_7:
  assumes "errorType e1 = errorType e2" "testName e1 = testName e2"
    "errorMessage e1 = Some (asc ''Expected 5, got 3'')"
    "errorMessage e2 = Some (asc ''Expected 12, got 7'')"
  shows "createErrorSignature e1 = createErrorSignature e2"
proof -
  have "asc ''Expected 5, got 3'' \<noteq> []" "asc ''Expected 12, got 7'' \<noteq> []"
    by (simp_all add: asc_def)
  with assms show ?thesis
    by (simp add: createErrorSignature_def normalise_5_3 normalise_12_7 or_empty_def truthy_def)
qed

lemma signature_12_7_words:
  assumes "errorMessage e = Some (asc ''Expected 12, got 7'')"
  shows "words_of (createErrorSignature e) \<noteq> {}"
proof -
  have "asc ''Expected 12, got 7'' \<noteq> []" by (simp add: asc_def)
  from signature_has_message[OF assms this]
  have "set (take 120 (asc ''Expected N, got N'')) \<subseteq> set (createErrorSignature e)"
    by (simp only: normalise_12_7)
  moreover have "0x45 \<in> set (take 120 (asc ''Expected N, got N''))"
    by (simp add: asc_def)
  ultimately have "0x45 \<in> set (createErrorSignature e)" by blast
  moreover have "\<not> is_space 0x45" by (simp add: is_space_def)
  ultimately show ?thesis unfolding words_of_nonempty by blast
qed


lemma no_error_signature:
  "errorType r = None \<Longrightarrow> errorMessage r = None \<Longrightarrow> testName r = None
   \<Longrightarrow> createErrorSignature r = []"
  by (simp add: createErrorSignature_def truthy_def)

lemma lookup_single:
  assumes "trim line \<noteq> []" "parse (trim line) = JRecord r" "has_token (createErrorSignature r)"
  shows "lookupSolution parse r (line # rest) = Inr (found_record r)"
  using assms
  by (simp add: lookupSolution_def Let_def matchSignatures_self default_threshold_def
      words_of_nonempty has_token_iff)


section \<open>Auxiliary facts about the self check\<close>

text \<open>Every issue of the four questions opens with the cross mark, so none is
  empty and each is pushed.\<close>

lemma checkTestsPassing_cross: "checkTestsPassing impl = Some s \<Longrightarrow> prefix cross s"
  by (auto simp: checkTestsPassing_def split: if_splits option.splits)

lemma checkRequirementsMet_cross: "checkRequirementsMet impl = Some s \<Longrightarrow> prefix cross s"
  by (auto simp: checkRequirementsMet_def Let_def split: if_splits)

lemma checkAssumptionsVerified_cross:
  "checkAssumptionsVerified impl = Some s \<Longrightarrow> prefix cross s"
  by (auto simp: checkAssumptionsVerified_def Let_def split: if_splits)

lemma checkEvidenceExists_cross: "checkEvidenceExists impl = Some s \<Longrightarrow> prefix cross s"
  by (auto simp: checkEvidenceExists_def Let_def split: if_splits)

lemma push_if_cross:
  assumes "\<And>s. q = Some s \<Longrightarrow> prefix cross s"
  shows "push_if q iss = iss @ issue_of q"
proof (cases q)
  case None
  then show ?thesis by (simp add: push_if_def truthy_def issue_of_def)
next
  case (Some s)
  with assms have "prefix cross s" by simp
  then have "s \<noteq> []" by (auto simp: cross_def)
  with Some show ?thesis by (simp add: push_if_def truthy_def issue_of_def)
qed

lemma issue_of_mem: "(i \<in> set (issue_of q)) = (q = Some i)"
  by (cases q) (auto simp: issue_of_def)

lemma selfCheck_issues:
  "issues (selfCheck impl) =
     issue_of (checkTestsPassing impl) @ issue_of (checkRequirementsMet impl)
     @ issue_of (checkAssumptionsVerified impl) @ issue_of (checkEvidenceExists impl)
     @ map (\<lambda>f. hallucination_prefix @ f) (detectHallucinations impl)"
  by (simp add: selfCheck_def Let_def
      push_if_cross[OF checkTestsPassing_cross] push_if_cross[OF checkRequirementsMet_cross]
      push_if_cross[OF checkAssumptionsVerified_cross] push_if_cross[OF checkEvidenceExists_cross])

lemma cross_not_flagged: "prefix cross s \<Longrightarrow> \<not> prefix hallucination_prefix s"
  by (auto simp: cross_def hallucination_prefix_def siren_def prefix_def)

text \<open>The answers of the four questions and the red flags on \<open>bad_impl\<close>.\<close>

lemma bad_impl_tests:
  "issue_of (checkTestsPassing bad_impl)
   = [cross @ asc '' Tests not passing '' @ emdash @ asc '' implementation is incomplete'']"
  by (simp add: bad_impl_def blank_impl_def checkTestsPassing_def issue_of_def)

lemma bad_impl_requirements:
  "issue_of (checkRequirementsMet bad_impl)
   = [cross @ asc '' Requirements not fully met: login'']"
  by (simp add: bad_impl_def blank_impl_def checkRequirementsMet_def issue_of_def
      or_empty_def asc_def)

lemma bad_impl_assumptions:
  "issue_of (checkAssumptionsVerified bad_impl)
   = [cross @ asc '' Unverified assumptions: api is stable'']"
  by (simp add: bad_impl_def blank_impl_def checkAssumptionsVerified_def issue_of_def
      or_empty_def asc_def)

lemma bad_impl_evidence:
  "issue_of (checkEvidenceExists bad_impl)
   = [cross @ asc '' Missing evidence: testResults, codeChanges, validation'']"
  by (simp add: bad_impl_def blank_impl_def checkEvidenceExists_def issue_of_def or_empty_def
      asc_def missingEvidence_def or_no_evidence_def no_evidence_def truthy_def)

lemma bad_impl_flags: "detectHallucinations bad_impl = [flag_no_evidence, flag_failing]"
  by (simp add: bad_impl_def blank_impl_def detectHallucinations_def or_empty_def truthy_def
      toLowerCase_def UNCERTAINTY_WORDS_def asc_def)


text \<open>The first red flag is the only one with its text.\<close>

lemma flag_no_output_mem:
  "(flag_no_output \<in> set (detectHallucinations impl))
   = (testsPassed impl \<and> \<not> truthy (testOutput impl))"
  by (auto simp: detectHallucinations_def Let_def flag_no_output_def flag_no_evidence_def
      flag_failing_def flag_ignored_def asc_def)











section \<open>Auxiliary facts about the report\<close>

lemma lines_of_no_nl: "0x0A \<notin> set x \<Longrightarrow> lines_of x = [x]"
  by (induction x) auto

lemma lines_of_append_nl:
  "0x0A \<notin> set x \<Longrightarrow> lines_of (x @ 0x0A # rest) = x # lines_of rest"
  by (induction x) auto

text \<open>Joining with line feeds and splitting into lines are inverse on strings
  that hold no line feed.\<close>

lemma lines_of_join:
  "xs \<noteq> [] \<Longrightarrow> \<forall>x\<in>set xs. 0x0A \<notin> set x \<Longrightarrow> lines_of (join [0x0A] xs) = xs"
proof (induction xs)
  case Nil
  then show ?case by simp
next
  case (Cons x xs)
  show ?case
  proof (cases xs)
    case Nil
    with Cons.prems show ?thesis by (simp add: lines_of_no_nl)
  next
    case (Cons y ys)
    with Cons.prems Cons.IH show ?thesis by (simp add: lines_of_append_nl)
  qed
qed

lemma digit_cu: "k < 10 \<Longrightarrow> unat (of_nat (48 + k) :: cu) = 48 + k"
  by (simp only: unat_of_nat) simp

lemma str_of_nat_digits: "c \<in> set (str_of_nat n) \<Longrightarrow> 48 \<le> unat c \<and> unat c \<le> 57"
proof (induction n arbitrary: c rule: str_of_nat.induct)
  case (1 n)
  show ?case
  proof (cases "n < 10")
    case True
    with "1.prems" have "c = of_nat (48 + n)"
      by (subst (asm) str_of_nat.simps) (simp del: of_nat_add)
    with True show ?thesis by (simp only: digit_cu) simp
  next
    case False
    with "1.prems" have "c \<in> set (str_of_nat (n div 10)) \<or> c = of_nat (48 + n mod 10)"
      by (subst (asm) str_of_nat.simps) (auto simp del: of_nat_add)
    then show ?thesis
    proof
      assume "c \<in> set (str_of_nat (n div 10))"
      with "1.IH" False show ?thesis by simp
    next
      assume "c = of_nat (48 + n mod 10)"
      moreover have "n mod 10 < 10" by simp
      ultimately show ?thesis by (simp only: digit_cu) simp
    qed
  qed
qed

lemma str_of_nat_no_nl: "0x0A \<notin> set (str_of_nat n)"
proof
  assume "0x0A \<in> set (str_of_nat n)"
  then have "48 \<le> unat (0x0A :: cu)" by (rule str_of_nat_digits[THEN conjunct1])
  then show False by simp
qed

text \<open>The digits written for a count denote that count.\<close>

lemma decimal_str_of_nat: "decimal_value (str_of_nat n) = n"
proof (induction n rule: str_of_nat.induct)
  case (1 n)
  show ?case
  proof (cases "n < 10")
    case True
    then have "str_of_nat n = [of_nat (48 + n)]" by (subst str_of_nat.simps) simp
    with True show ?thesis by (simp add: decimal_value_def digit_cu del: of_nat_add)
  next
    case False
    have m: "n mod 10 < 10" by simp
    have "str_of_nat n = str_of_nat (n div 10) @ [of_nat (48 + n mod 10)]"
      using False by (subst str_of_nat.simps) simp
    then have "decimal_value (str_of_nat n)
        = 10 * decimal_value (str_of_nat (n div 10))
          + (unat (of_nat (48 + n mod 10) :: cu) - 48)"
      by (simp add: decimal_value_def del: of_nat_add)
    also have "\<dots> = 10 * (n div 10) + n mod 10"
      using "1.IH" False by (simp add: digit_cu[OF m] del: of_nat_add)
    finally show ?thesis by simp
  qed
qed

lemma passed_lines_no_nl: "\<forall>x\<in>set passed_lines. 0x0A \<notin> set x"
  by (simp add: passed_lines_def report_header_def clipboard_def check_box_def bar_chart_def
      asc_def)

lemma fixed_lines_no_nl: "0x0A \<notin> set failed_line" "0x0A \<notin> set report_header"
  by (simp_all add: failed_line_def report_header_def bar_chart_def clipboard_def asc_def)

lemma summary_line_no_nl: "0x0A \<notin> set (summary_line n)"
  by (simp add: summary_line_def cross_def str_of_nat_no_nl asc_def)

lemma selfCheck_report:
  "report (selfCheck impl) = formatReport (passed (selfCheck impl)) (issues (selfCheck impl))"
  by (simp add: selfCheck_def Let_def)


lemma asc_nl: "asc [CHR 0x0A] = [0x0A]" by (simp add: asc_def)

lemma failed_lines_of:
  assumes "\<forall>i\<in>set iss. 0x0A \<notin> set i"
  shows "lines_of (formatReport False iss)
     = [report_header] @ map (\<lambda>i. asc ''   '' @ i) iss
       @ [[], failed_line, summary_line (length iss)]"
proof -
  have "\<forall>x\<in>set ([report_header] @ map (\<lambda>i. asc ''   '' @ i) iss
                 @ [[], failed_line, summary_line (length iss)]). 0x0A \<notin> set x"
    using assms by (auto simp: fixed_lines_no_nl summary_line_no_nl asc_def)
  then show ?thesis
    by (simp add: formatReport_def asc_def lines_of_join del: join.simps)
qed

lemma passed_lines_of: "lines_of (formatReport True iss) = passed_lines"
  using passed_lines_no_nl
  by (simp add: formatReport_def asc_def lines_of_join passed_lines_def del: join.simps)

text \<open>The verdicts on \<open>good_impl\<close> and \<open>bad_impl\<close>.\<close>

lemma good_impl_passed: "passed (selfCheck good_impl)"
  by code_simp

lemma bad_impl_failed: "\<not> passed (selfCheck bad_impl)"
  by code_simp

lemma bad_impl_issue_count: "length (issues (selfCheck bad_impl)) = 6"
  by code_simp

lemma bad_impl_no_nl: "\<forall>i\<in>set (issues (selfCheck bad_impl)). 0x0A \<notin> set i"
  by code_simp

lemma good_impl_line_count: "length (lines_of (report (selfCheck good_impl))) = 8"
  by code_simp

lemma bad_impl_line_count: "length (lines_of (report (selfCheck bad_impl))) = 10"
  by code_simp

lemma bad_impl_second_line:
  "lines_of (report (selfCheck bad_impl)) ! 1 \<noteq> issues (selfCheck bad_impl) ! 0"
  by code_simp


section \<open>Auxiliary facts about the lookup\<close>

lemma lookup_scan_skipped:
  "skipped parse q l \<Longrightarrow> lookup_scan parse q (l # rest) = lookup_scan parse q rest"
  by (auto simp: skipped_def Let_def split: json_parse.splits)

lemma lookup_scan_prefix:
  "\<forall>l\<in>set pre. skipped parse q l
   \<Longrightarrow> lookup_scan parse q (pre @ rest) = lookup_scan parse q rest"
  by (induction pre) (simp_all add: lookup_scan_skipped del: lookup_scan.simps)

text \<open>The scan returns the first record that is similar to the query; the lines
  before it are passed over.\<close>

lemma lookup_scan_first_match:
  assumes "\<forall>l\<in>set pre. skipped parse q l" "trim l \<noteq> []" "parse (trim l) = JRecord r"
    "matchSignatures q (createErrorSignature r) default_threshold"
  shows "lookup_scan parse q (pre @ l # post) = Inr (found_record r)"
  using assms by (simp add: lookup_scan_prefix Let_def)

lemma lookup_scan_no_match:
  assumes "\<forall>l\<in>set ls. skipped parse q l"
  shows "lookup_scan parse q ls = Inr not_found"
  using lookup_scan_prefix[OF assms, of "[]"] by simp

text \<open>A line that fails to parse can be left out: the scan goes on behind it.\<close>

lemma lookup_scan_unparsable:
  assumes "parse (trim l) = SyntaxError"
  shows "lookup_scan parse q (pre @ l # post) = lookup_scan parse q (pre @ post)"
proof (induction pre)
  case Nil
  show ?case using assms by (simp add: Let_def)
next
  case (Cons a pre)
  then show ?case by (simp add: Let_def split: json_parse.splits)
qed

text \<open>A line that holds \<open>null\<close> ends the scan with a \<open>TypeError\<close>.\<close>

lemma lookup_scan_null:
  assumes "\<forall>l\<in>set pre. skipped parse q l" "trim l \<noteq> []" "parse (trim l) = JNull"
  shows "lookup_scan parse q (pre @ l # post) = Inl TypeError"
  using assms by (simp add: lookup_scan_prefix Let_def)

lemma lookupSolution_empty: "lookupSolution parse errorInfo [] = Inr not_found"
  by (simp add: lookupSolution_def)

text \<open>The lines of the examples.\<close>

lemma trim_null: "trim (asc ''null'') = asc ''null''" by code_simp
lemma trim_stored: "trim stored_line = stored_line" by code_simp
lemma trim_truncated: "trim truncated_line = truncated_line" by code_simp
lemma parse_null: "example_parse (asc ''null'') = JNull"
  by (simp add: example_parse_def stored_line_def asc_def)
lemma parse_stored: "example_parse stored_line = JRecord stored_record"
  by (simp add: example_parse_def)
lemma parse_truncated: "example_parse truncated_line = SyntaxError"
  by (simp add: example_parse_def stored_line_def truncated_line_def asc_def)
lemma stored_similar:
  "matchSignatures (createErrorSignature assertion_5_3) (createErrorSignature stored_record)
     default_threshold"
proof -
  have "createErrorSignature assertion_5_3 = createErrorSignature stored_record"
    by (rule signature_5_3_12_7)
      (simp_all add: assertion_5_3_def stored_record_def assertion_12_7_def no_error_def)
  moreover have "words_of (createErrorSignature stored_record) \<noteq> {}"
    by (rule signature_12_7_words) (simp add: stored_record_def assertion_12_7_def no_error_def)
  ultimately show ?thesis by (simp add: matchSignatures_self default_threshold_def)
qed


section \<open>Properties of the verdict\<close>

text \<open>
  C1. For every implementation record, the verdict of \<open>selfCheck\<close> has
  \<open>passed\<close> true exactly when its list of issues is empty; the list combines
  the issues of the four questions and the red flags, so this is exactly when
  no question reports an issue and no red flag is raised.
\<close>

theorem selfCheck_passed_iff_no_issues:
  "passed (selfCheck impl) = (issues (selfCheck impl) = [])
   \<and> passed (selfCheck impl)
     = (checkTestsPassing impl = None \<and> checkRequirementsMet impl = None
        \<and> checkAssumptionsVerified impl = None \<and> checkEvidenceExists impl = None
        \<and> detectHallucinations impl = [])"
proof -
  have p: "passed (selfCheck impl) = (issues (selfCheck impl) = [])"
    by (simp add: selfCheck_def Let_def)
  have e: "(issue_of q = []) = (q = None)" for q
    by (cases q) (simp_all add: issue_of_def)
  have "(issues (selfCheck impl) = [])
     = (checkTestsPassing impl = None \<and> checkRequirementsMet impl = None
        \<and> checkAssumptionsVerified impl = None \<and> checkEvidenceExists impl = None
        \<and> detectHallucinations impl = [])"
    by (simp add: selfCheck_issues e)
  with p show ?thesis by simp
qed

text \<open>
  C4. For every implementation record, \<open>selfCheck\<close> runs all four questions
  whatever the earlier ones answered: its list of issues is the issue of the
  tests question, of the requirements question, of the assumptions question and
  of the evidence question, in this order and each present exactly when its
  question reports one, followed by the red flags. Every red flag carries the
  prefix \<open>hallucination_prefix\<close>, which no issue of the four questions has.
\<close>

theorem selfCheck_issues_in_order:
  "issues (selfCheck impl) =
     issue_of (checkTestsPassing impl) @ issue_of (checkRequirementsMet impl)
     @ issue_of (checkAssumptionsVerified impl) @ issue_of (checkEvidenceExists impl)
     @ map (\<lambda>f. hallucination_prefix @ f) (detectHallucinations impl)
   \<and> (\<forall>i \<in> set (issue_of (checkTestsPassing impl) @ issue_of (checkRequirementsMet impl)
        @ issue_of (checkAssumptionsVerified impl) @ issue_of (checkEvidenceExists impl)).
        \<not> prefix hallucination_prefix i)
   \<and> (\<forall>i \<in> set (map (\<lambda>f. hallucination_prefix @ f) (detectHallucinations impl)).
        prefix hallucination_prefix i)"
proof (intro conjI ballI)
  show "issues (selfCheck impl) =
     issue_of (checkTestsPassing impl) @ issue_of (checkRequirementsMet impl)
     @ issue_of (checkAssumptionsVerified impl) @ issue_of (checkEvidenceExists impl)
     @ map (\<lambda>f. hallucination_prefix @ f) (detectHallucinations impl)"
    by (rule selfCheck_issues)
next
  fix i
  assume "i \<in> set (issue_of (checkTestsPassing impl) @ issue_of (checkRequirementsMet impl)
        @ issue_of (checkAssumptionsVerified impl) @ issue_of (checkEvidenceExists impl))"
  then have "prefix cross i"
    by (auto simp: issue_of_mem dest: checkTestsPassing_cross checkRequirementsMet_cross
        checkAssumptionsVerified_cross checkEvidenceExists_cross)
  then show "\<not> prefix hallucination_prefix i" by (rule cross_not_flagged)
next
  fix i
  assume "i \<in> set (map (\<lambda>f. hallucination_prefix @ f) (detectHallucinations impl))"
  then show "prefix hallucination_prefix i" by auto
qed

theorem selfCheck_issues_in_order_witness:
  "issues (selfCheck bad_impl) =
     [cross @ asc '' Tests not passing '' @ emdash @ asc '' implementation is incomplete'',
      cross @ asc '' Requirements not fully met: login'',
      cross @ asc '' Unverified assumptions: api is stable'',
      cross @ asc '' Missing evidence: testResults, codeChanges, validation'',
      hallucination_prefix @ flag_no_evidence,
      hallucination_prefix @ flag_failing]
   \<and> \<not> prefix hallucination_prefix (cross @ asc '' Requirements not fully met: login'')
   \<and> prefix hallucination_prefix (hallucination_prefix @ flag_failing)"
  using selfCheck_issues_in_order[of bad_impl]
  by (simp add: bad_impl_tests bad_impl_requirements bad_impl_assumptions bad_impl_evidence
      bad_impl_flags)


section \<open>Properties of the report\<close>

text \<open>
  C2, as the code has it. For every implementation record, the report of the
  verdict is, when passed, the fixed block of eight lines \<open>passed_lines\<close>: the
  header, one confirmation line for each of the four questions, an empty line,
  the status line \<open>Validation: PASSED\<close> and the closing line. When failed, it
  is the header line, then each issue in order behind three spaces, then an
  empty line, the status line \<open>Validation: FAILED\<close> and the summary line that
  states the number of issues in decimal, joined by line feeds; these are the
  lines of the report when no issue holds a line feed.
\<close>

theorem report_layout:
  "(passed (selfCheck impl)
      \<longrightarrow> report (selfCheck impl) = join [0x0A] passed_lines
          \<and> lines_of (report (selfCheck impl)) = passed_lines
          \<and> length (lines_of (report (selfCheck impl))) = 8)
   \<and> (\<not> passed (selfCheck impl)
      \<longrightarrow> report (selfCheck impl)
          = join [0x0A]
              ([report_header] @ map (\<lambda>i. asc ''   '' @ i) (issues (selfCheck impl))
               @ [[], failed_line, summary_line (length (issues (selfCheck impl)))]))
   \<and> (\<not> passed (selfCheck impl) \<and> (\<forall>i\<in>set (issues (selfCheck impl)). 0x0A \<notin> set i)
      \<longrightarrow> lines_of (report (selfCheck impl))
          = [report_header] @ map (\<lambda>i. asc ''   '' @ i) (issues (selfCheck impl))
            @ [[], failed_line, summary_line (length (issues (selfCheck impl)))])
   \<and> summary_line n
       = cross @ asc '' '' @ str_of_nat n
         @ asc '' issue(s) must be resolved before claiming completion''
   \<and> decimal_value (str_of_nat n) = n"
proof (intro conjI impI)
  assume "passed (selfCheck impl)"
  then show "report (selfCheck impl) = join [0x0A] passed_lines"
    by (simp add: selfCheck_report formatReport_def asc_def)
next
  assume "passed (selfCheck impl)"
  then show "lines_of (report (selfCheck impl)) = passed_lines"
    by (simp add: selfCheck_report passed_lines_of)
next
  assume "passed (selfCheck impl)"
  then have "lines_of (report (selfCheck impl)) = passed_lines"
    by (simp add: selfCheck_report passed_lines_of)
  then show "length (lines_of (report (selfCheck impl))) = 8"
    by (simp add: passed_lines_def)
next
  assume "\<not> passed (selfCheck impl)"
  then show "report (selfCheck impl)
          = join [0x0A]
              ([report_header] @ map (\<lambda>i. asc ''   '' @ i) (issues (selfCheck impl))
               @ [[], failed_line, summary_line (length (issues (selfCheck impl)))])"
    by (simp add: selfCheck_report formatReport_def asc_nl del: join.simps)
next
  assume "\<not> passed (selfCheck impl) \<and> (\<forall>i\<in>set (issues (selfCheck impl)). 0x0A \<notin> set i)"
  then show "lines_of (report (selfCheck impl))
          = [report_header] @ map (\<lambda>i. asc ''   '' @ i) (issues (selfCheck impl))
            @ [[], failed_line, summary_line (length (issues (selfCheck impl)))]"
    by (simp add: selfCheck_report failed_lines_of)
next
  show "summary_line n
       = cross @ asc '' '' @ str_of_nat n
         @ asc '' issue(s) must be resolved before claiming completion''"
    by (simp add: summary_line_def)
next
  show "decimal_value (str_of_nat n) = n" by (rule decimal_str_of_nat)
qed

theorem report_layout_witness:
  "passed (selfCheck good_impl)
   \<and> lines_of (report (selfCheck good_impl)) = passed_lines
   \<and> length (lines_of (report (selfCheck good_impl))) = 8
   \<and> \<not> passed (selfCheck bad_impl)
   \<and> lines_of (report (selfCheck bad_impl))
       = [report_header] @ map (\<lambda>i. asc ''   '' @ i) (issues (selfCheck bad_impl))
         @ [[], failed_line, summary_line 6]
   \<and> summary_line 6
       = cross @ asc '' 6 issue(s) must be resolved before claiming completion''"
proof -
  note g = report_layout[of good_impl 6]
  note b = report_layout[of bad_impl 6]
  have 1: "lines_of (report (selfCheck good_impl)) = passed_lines"
    using g good_impl_passed by blast
  have 2: "length (lines_of (report (selfCheck good_impl))) = 8"
    using g good_impl_passed by blast
  have "lines_of (report (selfCheck bad_impl))
       = [report_header] @ map (\<lambda>i. asc ''   '' @ i) (issues (selfCheck bad_impl))
         @ [[], failed_line, summary_line (length (issues (selfCheck bad_impl)))]"
    using b bad_impl_failed bad_impl_no_nl by blast
  then have 3: "lines_of (report (selfCheck bad_impl))
       = [report_header] @ map (\<lambda>i. asc ''   '' @ i) (issues (selfCheck bad_impl))
         @ [[], failed_line, summary_line 6]"
    by (simp only: bad_impl_issue_count)
  have "str_of_nat 6 = asc ''6''" by (simp add: str_of_nat.simps asc_def)
  then have "asc '' '' @ str_of_nat 6
       @ asc '' issue(s) must be resolved before claiming completion''
     = asc '' 6 issue(s) must be resolved before claiming completion''"
    by (simp add: asc_def)
  moreover have "summary_line 6
       = cross @ asc '' '' @ str_of_nat 6
         @ asc '' issue(s) must be resolved before claiming completion''"
    using b by blast
  ultimately have 4: "summary_line 6
       = cross @ asc '' 6 issue(s) must be resolved before claiming completion''"
    by simp
  show ?thesis
    using good_impl_passed bad_impl_failed 1 2 3 4 by blast
qed

text \<open>
  C2 as stated fails: the report of a passing claim has eight lines, not five;
  the report of a failing claim has two closing lines after the empty one, the
  status line and the summary, and its issue lines are the issues behind three
  spaces, not the issues as they are.
\<close>

theorem report_layout_counterexample:
  "passed (selfCheck good_impl)
   \<and> length (lines_of (report (selfCheck good_impl))) \<noteq> 5
   \<and> \<not> passed (selfCheck bad_impl)
   \<and> length (lines_of (report (selfCheck bad_impl)))
       \<noteq> 1 + length (issues (selfCheck bad_impl)) + 1 + 1
   \<and> lines_of (report (selfCheck bad_impl)) ! 1 \<noteq> issues (selfCheck bad_impl) ! 0"
  using good_impl_passed bad_impl_failed bad_impl_issue_count good_impl_line_count
    bad_impl_line_count bad_impl_second_line
  by simp


section \<open>Properties of the requirements question\<close>

text \<open>
  C3. For all lists of requirements \<open>R\<close> (field \<open>requirements\<close>) and of met
  requirements \<open>M\<close> (field \<open>requirementsMet\<close>), the requirements question
  reports no issue exactly when every element of \<open>R\<close> is a member of \<open>M\<close>; the
  answer depends on the two lists only through their sets of elements, so
  neither the order nor duplicates matter; when \<open>R\<close> is empty or absent there
  is no issue; otherwise the unmet entries are reported together, in the order
  of \<open>R\<close>, as one issue.
\<close>

theorem checkRequirementsMet_containment:
  "(checkRequirementsMet impl = None)
     = (set (or_empty (requirements impl)) \<subseteq> set (or_empty (requirementsMet impl)))
   \<and> (set (or_empty (requirements impl')) = set (or_empty (requirements impl))
        \<and> set (or_empty (requirementsMet impl')) = set (or_empty (requirementsMet impl))
      \<longrightarrow> (checkRequirementsMet impl' = None) = (checkRequirementsMet impl = None))
   \<and> (requirements impl = None \<or> requirements impl = Some []
      \<longrightarrow> checkRequirementsMet impl = None)
   \<and> (\<not> set (or_empty (requirements impl)) \<subseteq> set (or_empty (requirementsMet impl))
      \<longrightarrow> checkRequirementsMet impl
          = Some (cross @ asc '' Requirements not fully met: ''
                  @ join (asc '', '')
                      (filter (\<lambda>r. r \<notin> set (or_empty (requirementsMet impl)))
                         (or_empty (requirements impl)))))"
proof -
  have iff: "(checkRequirementsMet x = None)
     = (set (or_empty (requirements x)) \<subseteq> set (or_empty (requirementsMet x)))" for x
    by (auto simp: checkRequirementsMet_def Let_def filter_empty_conv)
  have some: "\<not> set (or_empty (requirements impl)) \<subseteq> set (or_empty (requirementsMet impl))
      \<Longrightarrow> checkRequirementsMet impl
          = Some (cross @ asc '' Requirements not fully met: ''
                  @ join (asc '', '')
                      (filter (\<lambda>r. r \<notin> set (or_empty (requirementsMet impl)))
                         (or_empty (requirements impl))))"
    by (auto simp: checkRequirementsMet_def Let_def filter_empty_conv)
  show ?thesis
    using some by (auto simp: iff or_empty_def)
qed

theorem checkRequirementsMet_containment_witness:
  "checkRequirementsMet
     (reqs_impl [asc ''a'', asc ''b'', asc ''a''] [asc ''b'', asc ''c'', asc ''a'']) = None
   \<and> checkRequirementsMet
       (reqs_impl [asc ''b'', asc ''a''] [asc ''a'', asc ''a'', asc ''c'', asc ''b'']) = None
   \<and> checkRequirementsMet blank_impl = None
   \<and> checkRequirementsMet (reqs_impl [asc ''a'', asc ''b'', asc ''c''] [asc ''b''])
       = Some (cross @ asc '' Requirements not fully met: a, c'')"
proof -
  let ?i1 = "reqs_impl [asc ''a'', asc ''b'', asc ''a''] [asc ''b'', asc ''c'', asc ''a'']"
  let ?i2 = "reqs_impl [asc ''b'', asc ''a''] [asc ''a'', asc ''a'', asc ''c'', asc ''b'']"
  let ?i3 = "reqs_impl [asc ''a'', asc ''b'', asc ''c''] [asc ''b'']"
  have r: "or_empty (requirements (reqs_impl R M)) = R"
    "or_empty (requirementsMet (reqs_impl R M)) = M" for R M
    by (simp_all add: reqs_impl_def or_empty_def)
  have 1: "set (or_empty (requirements ?i1)) \<subseteq> set (or_empty (requirementsMet ?i1))"
    by (simp add: r)
  have 2: "set (or_empty (requirements ?i2)) = set (or_empty (requirements ?i1))
        \<and> set (or_empty (requirementsMet ?i2)) = set (or_empty (requirementsMet ?i1))"
    by (auto simp add: r)
  have 3: "requirements blank_impl = None" by (simp add: blank_impl_def)
  have 4: "\<not> set (or_empty (requirements ?i3)) \<subseteq> set (or_empty (requirementsMet ?i3))"
    by (simp add: r asc_def)
  have 5: "join (asc '', '')
       (filter (\<lambda>r. r \<notin> set (or_empty (requirementsMet ?i3))) (or_empty (requirements ?i3)))
     = asc ''a, c''"
    by (simp add: r asc_def)
  have 6: "asc '' Requirements not fully met: '' @ asc ''a, c''
     = asc '' Requirements not fully met: a, c''"
    by (simp add: asc_def)
  show ?thesis
    using 1 2 3 4 5 6
      checkRequirementsMet_containment[of ?i1 ?i2]
      checkRequirementsMet_containment[of blank_impl blank_impl]
      checkRequirementsMet_containment[of ?i3 ?i3]
    by simp
qed


section \<open>Properties of the red flags\<close>

text \<open>
  C8, as the code has it. For every implementation record, the red-flag scanner
  raises the first flag (success claimed with no artifact) exactly when
  \<open>testsPassed\<close> is true and \<open>testOutput\<close> is absent or the empty string; a
  claim whose \<open>testOutput\<close> is present and not empty, even if it is only white
  space, does not raise it. The same holds of the prefixed flag in the issues
  of \<open>selfCheck\<close>.
\<close>

theorem flag_no_output_iff:
  "(flag_no_output \<in> set (detectHallucinations impl))
     = (testsPassed impl \<and> (testOutput impl = None \<or> testOutput impl = Some []))
   \<and> (testOutput impl = Some out \<and> out \<noteq> []
      \<longrightarrow> flag_no_output \<notin> set (detectHallucinations impl))
   \<and> (hallucination_prefix @ flag_no_output \<in> set (issues (selfCheck impl)))
     = (testsPassed impl \<and> (testOutput impl = None \<or> testOutput impl = Some []))"
proof -
  have t: "(\<not> truthy (testOutput impl)) = (testOutput impl = None \<or> testOutput impl = Some [])"
    by (simp add: truthy_def split: option.splits)
  have q: "hallucination_prefix @ flag_no_output \<notin> set (issue_of q)"
    if "\<And>s. q = Some s \<Longrightarrow> prefix cross s" for q
    using that cross_not_flagged[of "hallucination_prefix @ flag_no_output"]
    by (auto simp: issue_of_mem)
  have mem: "(flag_no_output \<in> set (detectHallucinations impl))
     = (testsPassed impl \<and> (testOutput impl = None \<or> testOutput impl = Some []))"
    by (simp add: flag_no_output_mem t)
  have "(hallucination_prefix @ flag_no_output \<in> set (issues (selfCheck impl)))
     = (flag_no_output \<in> set (detectHallucinations impl))"
    by (auto simp: selfCheck_issues q[OF checkTestsPassing_cross] q[OF checkRequirementsMet_cross]
        q[OF checkAssumptionsVerified_cross] q[OF checkEvidenceExists_cross])
  with mem show ?thesis
    by auto
qed

theorem flag_no_output_iff_witness:
  "testOutput spaces_output_impl = Some (asc ''  '') \<and> asc ''  '' \<noteq> []
   \<and> flag_no_output \<notin> set (detectHallucinations spaces_output_impl)
   \<and> flag_no_output \<in> set (detectHallucinations (blank_impl\<lparr>testsPassed := True\<rparr>))
   \<and> hallucination_prefix @ flag_no_output \<in> set (issues (selfCheck empty_output_impl))"
proof -
  have 1: "testOutput spaces_output_impl = Some (asc ''  '') \<and> asc ''  '' \<noteq> []"
    by (simp add: spaces_output_impl_def asc_def)
  have 2: "testsPassed (blank_impl\<lparr>testsPassed := True\<rparr>)
      \<and> testOutput (blank_impl\<lparr>testsPassed := True\<rparr>) = None"
    by (simp add: blank_impl_def)
  have 3: "testsPassed empty_output_impl \<and> testOutput empty_output_impl = Some []"
    by (simp add: empty_output_impl_def)
  show ?thesis
    using 1 2 3 flag_no_output_iff[of spaces_output_impl "asc ''  ''"]
      flag_no_output_iff[of "blank_impl\<lparr>testsPassed := True\<rparr>" "[]"]
      flag_no_output_iff[of empty_output_impl "[]"]
    by simp
qed

text \<open>
  C8 as stated fails on a claim of passing tests whose \<open>testOutput\<close> is present
  and is the empty string: the flag is raised although the output is not
  absent.
\<close>

theorem flag_no_output_counterexample:
  "testsPassed empty_output_impl \<and> testOutput empty_output_impl \<noteq> None
   \<and> flag_no_output \<in> set (detectHallucinations empty_output_impl)
   \<and> (flag_no_output \<in> set (detectHallucinations empty_output_impl))
      \<noteq> (testsPassed empty_output_impl \<and> testOutput empty_output_impl = None)"
  by (simp add: flag_no_output_mem empty_output_impl_def blank_impl_def truthy_def)


section \<open>Properties of the evidence question\<close>




section \<open>Properties of the similarity\<close>

text \<open>
  C9. Similarity is symmetric: for all signatures \<open>a\<close> and \<open>b\<close> and every
  threshold \<open>t\<close>, \<open>matchSignatures a b t\<close> and \<open>matchSignatures b a t\<close> agree.
\<close>

theorem matchSignatures_symmetric: "matchSignatures a b t = matchSignatures b a t"
proof -
  have "words_of a \<inter> words_of b = words_of b \<inter> words_of a"
    and "words_of a \<union> words_of b = words_of b \<union> words_of a"
    by auto
  then show ?thesis
    by (auto simp: matchSignatures_alt)
qed


section \<open>Properties of the signature\<close>

text \<open>
  C6. Signature construction replaces every run of digits of \<open>errorMessage\<close> by
  the single placeholder \<open>N\<close> and then keeps the first 120 code units: for
  every record, the signature is the join of the parts that are present, and
  the part of the message is the first 120 code units of the message with its
  runs of digits replaced, whichever of \<open>errorType\<close> and \<open>testName\<close> stand
  beside it. A message without digits is unchanged by the replacement, and a
  maximal run of digits after a digit-free prefix becomes one \<open>N\<close>, the
  replacement continuing behind it. Hence two records with the same
  \<open>errorType\<close> and \<open>testName\<close> and the messages \<open>Expected 5, got 3\<close> and
  \<open>Expected 12, got 7\<close> have signatures that are similar at the default
  threshold.
\<close>

theorem signature_numeric_normalisation:
  "createErrorSignature e
     = join (asc '' | '')
         ((if truthy (errorType e) then [or_empty (errorType e)] else [])
          @ (if truthy (errorMessage e)
             then [take 120 (replace_digit_runs (or_empty (errorMessage e)))] else [])
          @ (if truthy (testName e) then [or_empty (testName e)] else []))
   \<and> (\<not> truthy (errorType e) \<and> \<not> truthy (testName e) \<and> errorMessage e = Some m \<and> m \<noteq> []
      \<longrightarrow> createErrorSignature e = take 120 (replace_digit_runs m))
   \<and> (errorType e = Some ty \<and> ty \<noteq> [] \<and> testName e = Some tn \<and> tn \<noteq> []
        \<and> errorMessage e = Some m \<and> m \<noteq> []
      \<longrightarrow> createErrorSignature e
          = ty @ asc '' | '' @ take 120 (replace_digit_runs m) @ asc '' | '' @ tn)
   \<and> (errorType e = Some ty \<and> ty \<noteq> [] \<and> \<not> truthy (testName e)
        \<and> errorMessage e = Some m \<and> m \<noteq> []
      \<longrightarrow> createErrorSignature e = ty @ asc '' | '' @ take 120 (replace_digit_runs m))
   \<and> (\<not> truthy (errorType e) \<and> testName e = Some tn \<and> tn \<noteq> []
        \<and> errorMessage e = Some m \<and> m \<noteq> []
      \<longrightarrow> createErrorSignature e = take 120 (replace_digit_runs m) @ asc '' | '' @ tn)
   \<and> (\<not> list_ex is_digit a \<longrightarrow> replace_digit_runs a = a)
   \<and> (\<not> list_ex is_digit a \<and> ds \<noteq> [] \<and> list_all is_digit ds
        \<and> (case t of [] \<Rightarrow> True | c # _ \<Rightarrow> \<not> is_digit c)
      \<longrightarrow> replace_digit_runs (a @ ds @ t) = a @ asc ''N'' @ replace_digit_runs t)
   \<and> (errorType e1 = errorType e2 \<and> testName e1 = testName e2
        \<and> errorMessage e1 = Some (asc ''Expected 5, got 3'')
        \<and> errorMessage e2 = Some (asc ''Expected 12, got 7'')
      \<longrightarrow> matchSignatures (createErrorSignature e1) (createErrorSignature e2)
            default_threshold)"
proof (intro conjI impI)
  show "createErrorSignature e
     = join (asc '' | '')
         ((if truthy (errorType e) then [or_empty (errorType e)] else [])
          @ (if truthy (errorMessage e)
             then [take 120 (replace_digit_runs (or_empty (errorMessage e)))] else [])
          @ (if truthy (testName e) then [or_empty (testName e)] else []))"
    by (simp add: createErrorSignature_def Let_def)
next
  assume "\<not> truthy (errorType e) \<and> \<not> truthy (testName e) \<and> errorMessage e = Some m \<and> m \<noteq> []"
  then show "createErrorSignature e = take 120 (replace_digit_runs m)"
    by (simp add: createErrorSignature_def truthy_def or_empty_def)
next
  assume "errorType e = Some ty \<and> ty \<noteq> [] \<and> testName e = Some tn \<and> tn \<noteq> []
        \<and> errorMessage e = Some m \<and> m \<noteq> []"
  then show "createErrorSignature e
          = ty @ asc '' | '' @ take 120 (replace_digit_runs m) @ asc '' | '' @ tn"
    by (simp add: createErrorSignature_def truthy_def or_empty_def)
next
  assume "errorType e = Some ty \<and> ty \<noteq> [] \<and> \<not> truthy (testName e)
        \<and> errorMessage e = Some m \<and> m \<noteq> []"
  then show "createErrorSignature e = ty @ asc '' | '' @ take 120 (replace_digit_runs m)"
    by (simp add: createErrorSignature_def truthy_def or_empty_def)
next
  assume "\<not> truthy (errorType e) \<and> testName e = Some tn \<and> tn \<noteq> []
        \<and> errorMessage e = Some m \<and> m \<noteq> []"
  then show "createErrorSignature e = take 120 (replace_digit_runs m) @ asc '' | '' @ tn"
    by (simp add: createErrorSignature_def truthy_def or_empty_def)
next
  assume "\<not> list_ex is_digit a"
  then show "replace_digit_runs a = a" by (rule replace_no_digits)
next
  assume "\<not> list_ex is_digit a \<and> ds \<noteq> [] \<and> list_all is_digit ds
        \<and> (case t of [] \<Rightarrow> True | c # _ \<Rightarrow> \<not> is_digit c)"
  then show "replace_digit_runs (a @ ds @ t) = a @ asc ''N'' @ replace_digit_runs t"
    by (simp add: replace_prefix_run)
next
  assume h: "errorType e1 = errorType e2 \<and> testName e1 = testName e2
        \<and> errorMessage e1 = Some (asc ''Expected 5, got 3'')
        \<and> errorMessage e2 = Some (asc ''Expected 12, got 7'')"
  then have "createErrorSignature e1 = createErrorSignature e2"
    by (simp add: signature_5_3_12_7)
  moreover have "words_of (createErrorSignature e2) \<noteq> {}"
    using h by (simp add: signature_12_7_words)
  ultimately show
    "matchSignatures (createErrorSignature e1) (createErrorSignature e2) default_threshold"
    by (simp add: matchSignatures_self default_threshold_def)
qed

theorem signature_numeric_normalisation_witness:
  "matchSignatures (createErrorSignature assertion_5_3) (createErrorSignature assertion_12_7)
     default_threshold
   \<and> replace_digit_runs (asc ''line 120 of 7'') = asc ''line N of N''
   \<and> createErrorSignature (no_error\<lparr>errorMessage := Some (asc ''Expected 5, got 3'')\<rparr>)
       = asc ''Expected N, got N''
   \<and> createErrorSignature assertion_5_3
       = asc ''AssertionError | Expected N, got N | test_calculation''
   \<and> length long_message = 169
   \<and> length (replace_digit_runs long_message) = 156
   \<and> createErrorSignature long_error
       = asc ''IndexError | '' @ concat (replicate 10 (asc ''line N of N ''))
   \<and> length (createErrorSignature long_error) = 13 + 120"
proof -
  let ?e = "no_error\<lparr>errorMessage := Some (asc ''Expected 5, got 3'')\<rparr>"
  note short = signature_numeric_normalisation
      [where e = ?e and m = "asc ''Expected 5, got 3''" and a = "asc ''line ''"
         and ds = "asc ''120''" and t = "asc '' of 7''"
         and ?e1.0 = assertion_5_3 and ?e2.0 = assertion_12_7]
  note long = signature_numeric_normalisation
      [where e = long_error and m = long_message and ty = "asc ''IndexError''"]
  have 1: "errorType assertion_5_3 = errorType assertion_12_7
        \<and> testName assertion_5_3 = testName assertion_12_7
        \<and> errorMessage assertion_5_3 = Some (asc ''Expected 5, got 3'')
        \<and> errorMessage assertion_12_7 = Some (asc ''Expected 12, got 7'')"
    by (simp add: assertion_5_3_def assertion_12_7_def no_error_def)
  have c1: "matchSignatures (createErrorSignature assertion_5_3)
      (createErrorSignature assertion_12_7) default_threshold"
    using short 1 by blast
  have 2: "\<not> list_ex is_digit (asc ''line '') \<and> asc ''120'' \<noteq> []
        \<and> list_all is_digit (asc ''120'')
        \<and> (case asc '' of 7'' of [] \<Rightarrow> True | c # _ \<Rightarrow> \<not> is_digit c)"
    by (simp add: asc_def is_digit_def)
  have "replace_digit_runs (asc ''line '' @ asc ''120'' @ asc '' of 7'')
      = asc ''line '' @ asc ''N'' @ replace_digit_runs (asc '' of 7'')"
    using short 2 by blast
  moreover have "replace_digit_runs (asc '' of 7'') = asc '' of N''"
    by (simp add: asc_def is_digit_def)
  moreover have "asc ''line '' @ asc ''120'' @ asc '' of 7'' = asc ''line 120 of 7''"
    by (simp add: asc_def)
  moreover have "asc ''line '' @ asc ''N'' @ asc '' of N'' = asc ''line N of N''"
    by (simp add: asc_def)
  ultimately have c2: "replace_digit_runs (asc ''line 120 of 7'') = asc ''line N of N''"
    by simp
  have 3: "\<not> truthy (errorType ?e) \<and> \<not> truthy (testName ?e)
     \<and> errorMessage ?e = Some (asc ''Expected 5, got 3'') \<and> asc ''Expected 5, got 3'' \<noteq> []"
    by (simp add: no_error_def asc_def truthy_def)
  have "createErrorSignature ?e = take 120 (replace_digit_runs (asc ''Expected 5, got 3''))"
    using short 3 by blast
  moreover have "take 120 (replace_digit_runs (asc ''Expected 5, got 3''))
      = asc ''Expected N, got N''"
    by (simp add: normalise_5_3) (simp add: asc_def)
  ultimately have c3: "createErrorSignature ?e = asc ''Expected N, got N''"
    by simp
  have c4: "createErrorSignature assertion_5_3
       = asc ''AssertionError | Expected N, got N | test_calculation''"
    by (simp add: assertion_5_3_def no_error_def createErrorSignature_def truthy_def
        or_empty_def asc_def is_digit_def)
  have c5: "length long_message = 169"
    by code_simp
  have c6: "length (replace_digit_runs long_message) = 156"
    by code_simp
  have 4: "errorType long_error = Some (asc ''IndexError'') \<and> asc ''IndexError'' \<noteq> []
     \<and> \<not> truthy (testName long_error)
     \<and> errorMessage long_error = Some long_message \<and> long_message \<noteq> []"
    by (simp add: long_error_def no_error_def truthy_def long_message_def asc_def)
  have "createErrorSignature long_error
      = asc ''IndexError'' @ asc '' | '' @ take 120 (replace_digit_runs long_message)"
    using long 4 by blast
  moreover have "take 120 (replace_digit_runs long_message)
      = concat (replicate 10 (asc ''line N of N ''))"
    by code_simp
  moreover have "asc ''IndexError'' @ asc '' | '' = asc ''IndexError | ''"
    by (simp add: asc_def)
  ultimately have c7: "createErrorSignature long_error
       = asc ''IndexError | '' @ concat (replicate 10 (asc ''line N of N ''))"
    by simp
  have "length (asc ''IndexError | '' @ concat (replicate 10 (asc ''line N of N ''))) = 13 + 120"
    by code_simp
  then have c8: "length (createErrorSignature long_error) = 13 + 120"
    by (simp only: c7)
  show ?thesis
    using c1 c2 c3 c4 c5 c6 c7 c8 by blast
qed

text \<open>
  C10, as the code has it. Similarity is reflexive exactly on the signatures
  that have a token: for a signature \<open>s\<close> whose split at white space has a
  non-empty piece, \<open>matchSignatures s s t\<close> holds for every threshold \<open>t \<le> 1\<close>
  (and for no other); for a signature without a token, such as the empty
  signature of a record with none of \<open>errorType\<close>, \<open>errorMessage\<close>, \<open>testName\<close>,
  it holds for no threshold. Hence a query equal to a stored record matches it
  at the default threshold exactly when the record's signature has a token,
  and a lookup that reaches the line of such a record returns it.
\<close>

theorem matchSignatures_reflexive_iff:
  "(has_token s \<longrightarrow> t \<le> 1 \<longrightarrow> matchSignatures s s t)
   \<and> (has_token s \<longrightarrow> matchSignatures s s t = (t \<le> 1))
   \<and> (\<not> has_token s \<longrightarrow> \<not> matchSignatures s s t)
   \<and> (errorType r = None \<and> errorMessage r = None \<and> testName r = None
      \<longrightarrow> createErrorSignature r = [] \<and> \<not> has_token (createErrorSignature r)
          \<and> \<not> matchSignatures (createErrorSignature r) (createErrorSignature r) t)
   \<and> (has_token (createErrorSignature r)
      \<longrightarrow> matchSignatures (createErrorSignature r) (createErrorSignature r) default_threshold)
   \<and> (has_token (createErrorSignature r) \<and> trim line \<noteq> [] \<and> parse (trim line) = JRecord r
      \<longrightarrow> lookupSolution parse r (line # rest) = Inr (found_record r))
   \<and> matchSignatures (createErrorSignature r) (createErrorSignature r) default_threshold
     = has_token (createErrorSignature r)"
proof -
  have tok: "has_token x = (words_of x \<noteq> {})" for x
    by (simp add: has_token_iff words_of_nonempty)
  have empty: "\<not> has_token []" by (simp add: has_token_def)
  show ?thesis
    by (auto simp: tok[symmetric] matchSignatures_self default_threshold_def no_error_signature
        empty lookup_single)
qed

theorem matchSignatures_reflexive_iff_witness:
  "has_token (asc ''AssertionError | Expected N'') \<and> (7/10 :: real) \<le> 1
   \<and> matchSignatures (asc ''AssertionError | Expected N'')
        (asc ''AssertionError | Expected N'') (7/10)
   \<and> \<not> has_token (asc ''  '')
   \<and> \<not> matchSignatures (asc ''  '') (asc ''  '') 0
   \<and> createErrorSignature no_error = []
   \<and> \<not> matchSignatures (createErrorSignature no_error) (createErrorSignature no_error) 0
   \<and> has_token (createErrorSignature stored_record)
   \<and> matchSignatures (createErrorSignature stored_record) (createErrorSignature stored_record)
        default_threshold
   \<and> trim stored_line \<noteq> [] \<and> example_parse (trim stored_line) = JRecord stored_record
   \<and> lookupSolution example_parse stored_record [stored_line] = Inr (found_record stored_record)"
proof -
  have a: "has_token (asc ''AssertionError | Expected N'')" by code_simp
  have b: "\<not> has_token (asc ''  '')" by code_simp
  have c: "errorType no_error = None \<and> errorMessage no_error = None \<and> testName no_error = None"
    by (simp add: no_error_def)
  have d: "has_token (createErrorSignature stored_record)" by code_simp
  have e: "trim stored_line = stored_line" by code_simp
  have f: "stored_line \<noteq> []" by (simp add: stored_line_def asc_def)
  have g: "example_parse stored_line = JRecord stored_record" by (simp add: example_parse_def)
  show ?thesis
    using a b c d e f g
      matchSignatures_reflexive_iff[of "asc ''AssertionError | Expected N''" "7/10" no_error]
      matchSignatures_reflexive_iff[of "asc ''  ''" 0 no_error]
      matchSignatures_reflexive_iff[of "[]" 0 stored_record stored_line example_parse "[]"]
    by simp
qed

text \<open>
  C10 as stated fails in its last sentence: the record whose only field is the
  type \<open>" "\<close> has the signature \<open>" "\<close>, which is not empty and has no token, and
  a query equal to this record does not match it.
\<close>

theorem matchSignatures_reflexive_iff_counterexample:
  "createErrorSignature space_type_error = asc '' ''
   \<and> createErrorSignature space_type_error \<noteq> []
   \<and> \<not> matchSignatures (createErrorSignature space_type_error)
         (createErrorSignature space_type_error) default_threshold"
proof -
  have sig: "createErrorSignature space_type_error = asc '' ''"
    by (simp add: space_type_error_def no_error_def createErrorSignature_def truthy_def
        or_empty_def asc_def)
  have "\<not> has_token (asc '' '')" by code_simp
  then have "words_of (asc '' '') = {}"
    using has_token_iff[of "asc '' ''"] words_of_nonempty[of "asc '' ''"] by blast
  then have "\<not> matchSignatures (asc '' '') (asc '' '') default_threshold"
    by (simp add: matchSignatures_self)
  moreover have "asc '' '' \<noteq> []" by (simp add: asc_def)
  ultimately show ?thesis by (simp add: sig)
qed

section \<open>Properties of the lookup\<close>

text \<open>
  C5. For every query and every list of lines, the lookup scans the lines in
  the order given and returns the first record whose signature is similar to
  that of the query, passing over the lines that fail to parse, and it finds
  nothing in an empty list. The code does so on lines that are blank, fail to
  parse or hold a record (\<open>lookup_scan_first_match\<close>, \<open>lookup_scan_no_match\<close>,
  \<open>lookup_scan_unparsable\<close>, \<open>lookupSolution_empty\<close>). It does not on a line
  that holds the text \<open>null\<close>: on the two lines \<open>null\<close> and \<open>stored_line\<close> the
  lookup ends with a \<open>TypeError\<close> at the first line, although the second line
  holds a record similar to the query, the one that the lookup returns when
  the first line is left out or is a line that fails to parse.
\<close>

theorem lookupSolution_null_line:
  "lookupSolution example_parse assertion_5_3 [asc ''null'', stored_line] = Inl TypeError
   \<and> lookupSolution example_parse assertion_5_3 [stored_line] = Inr (found_record stored_record)
   \<and> lookupSolution example_parse assertion_5_3 [truncated_line, stored_line]
       = Inr (found_record stored_record)"
proof -
  have ne: "asc ''null'' \<noteq> []" "stored_line \<noteq> []" "truncated_line \<noteq> []"
    by (simp_all add: asc_def stored_line_def truncated_line_def)
  show ?thesis
    by (simp add: lookupSolution_def trim_null trim_stored trim_truncated parse_null parse_stored
        parse_truncated stored_similar ne)
qed

end
